theory Spec2Isabelle
  imports Main
begin

section \<open>Policy model (package config)\<close>

text \<open>
  The structs of package \<open>config\<close>, field by field. Go strings are byte strings and
  so are HOL strings. A Go \<open>int\<close> is taken as a 64-bit integer; the model keeps it in
  \<open>int\<close> and writes the range check where a value is read from JSON.

  A slice is nil (\<open>None\<close>) or holds a list. \<open>AllowedDirectories\<close>, \<open>AllowCommands\<close>
  and \<open>DenyCommands\<close> keep the difference, because they are serialised without
  \<open>omitempty\<close> and a nil slice prints differently from an empty one.
  \<open>SubCommands\<close> and \<open>DenySubCommands\<close> are lists: they are tagged \<open>omitempty\<close>,
  and nothing tells their nil slice from their empty one. \<open>slice_list\<close> is what
  \<open>range\<close> and \<open>append\<close> see of a slice.
\<close>

definition slice_list :: "'a list option \<Rightarrow> 'a list" where
  "slice_list s = (case s of None \<Rightarrow> [] | Some xs \<Rightarrow> xs)"

definition DefaultExecutionTimeout :: int where
  "DefaultExecutionTimeout = 30"

definition DefaultMaxOutputSize :: int where
  "DefaultMaxOutputSize = 50 * 1024"

record DenyCommand =
  deny_Command :: string
  deny_Message :: string

record AllowCommand =
  Command :: string
  SubCommands :: "string list"
  DenySubCommands :: "string list"

record ShellCommandConfig =
  AllowedDirectories :: "string list option"
  AllowCommands :: "AllowCommand list option"
  DenyCommands :: "DenyCommand list option"
  DefaultErrorMessage :: string
  BlockLogPath :: string
  MaxExecutionTime :: int
  MaxOutputSize :: int

definition allow_entry :: "string \<Rightarrow> AllowCommand" where
  "allow_entry cmd = \<lparr>Command = cmd, SubCommands = [], DenySubCommands = []\<rparr>"

definition NewDefaultConfig :: ShellCommandConfig where
  "NewDefaultConfig =
     \<lparr>AllowedDirectories = Some [''/home'', ''/tmp''],
      AllowCommands = Some [allow_entry ''ls'', allow_entry ''cat'', allow_entry ''echo''],
      DenyCommands = Some [\<lparr>deny_Command = ''rm'', deny_Message = ''Remove command is not allowed''\<rparr>],
      DefaultErrorMessage = ''Command not allowed by security policy'',
      BlockLogPath = [],
      MaxExecutionTime = DefaultExecutionTimeout,
      MaxOutputSize = DefaultMaxOutputSize\<rparr>"

text \<open>
  \<open>IsCommandAllowed\<close> walks \<open>AllowCommands\<close> and returns at the first entry whose
  command is \<open>cmd\<close>. It reads no other field of the policy.
\<close>

fun allowed_in :: "AllowCommand list \<Rightarrow> string \<Rightarrow> bool" where
  "allowed_in [] cmd = False"
| "allowed_in (allowed # rest) cmd = (if Command allowed = cmd then True else allowed_in rest cmd)"

definition IsCommandAllowed :: "('a ShellCommandConfig_scheme) \<Rightarrow> string \<Rightarrow> bool" where
  "IsCommandAllowed c cmd = allowed_in (slice_list (AllowCommands c)) cmd"

definition AddAllowedCommand :: "('a ShellCommandConfig_scheme) \<Rightarrow> string \<Rightarrow> 'a ShellCommandConfig_scheme" where
  "AddAllowedCommand c cmd =
     (if \<not> IsCommandAllowed c cmd
      then c\<lparr>AllowCommands := Some (slice_list (AllowCommands c) @ [allow_entry cmd])\<rparr>
      else c)"

section \<open>JSON values and the decoding of package encoding/json\<close>

text \<open>
  The configuration is read with Go's \<open>encoding/json\<close>. The model works on parsed JSON
  values: the syntax of the text (and so every syntax error of a whole document) is left
  to a parser that is a parameter where a file is loaded. A number literal written
  as an integer is \<open>JInt\<close>; a literal with a fraction or an exponent is \<open>JNumber\<close> and
  keeps its text, since no \<open>int\<close> field accepts it. An object keeps its members in
  the order of the text, repeated keys included. A \<open>JString\<close> holds the string the
  literal denotes, escapes resolved; the decoder makes it valid UTF-8, and such a
  string is written back as the same value.
\<close>

datatype json =
    JNull
  | JBool bool
  | JInt int
  | JNumber string
  | JString string
  | JArray "json list"
  | JObject "(string \<times> json) list"

text \<open>
  Errors are values. \<open>New\<close> is \<open>errors.New\<close> (and any error of a collaborator, by its
  text), \<open>Errorf\<close> is \<open>fmt.Errorf("<prefix>: %w", err)\<close> with the wrapped error, which
  may be nil, \<open>NotPermitted\<close> is \<open>fmt.Errorf("command %q is not permitted", cmd)\<close>;
  \<open>SyntaxError\<close> and \<open>UnmarshalTypeError\<close> are those of \<open>encoding/json\<close>, the second
  with the Go type that the JSON value does not fit.
\<close>

datatype error =
    New string
  | Errorf string "error option"
  | NotPermitted string
  | SyntaxError string
  | UnmarshalTypeError string

text \<open>
  A key of an object selects the struct field whose JSON name it equals, or else equals
  after case folding. All field names here are ASCII letters; the only characters
  outside ASCII that fold to an ASCII letter are U+017F (long s, bytes C5 BF) and
  U+212A (Kelvin sign, bytes E2 84 AA).
\<close>

fun toUpper :: "char \<Rightarrow> char" where
  "toUpper (Char b0 b1 b2 b3 b4 b5 b6 b7) =
     (if (97::nat) \<le> of_char (Char b0 b1 b2 b3 b4 b5 b6 b7)
        \<and> of_char (Char b0 b1 b2 b3 b4 b5 b6 b7) \<le> (122::nat)
      then Char b0 b1 b2 b3 b4 False b6 b7
      else Char b0 b1 b2 b3 b4 b5 b6 b7)"

fun foldName :: "string \<Rightarrow> string" where
  "foldName [] = []"
| "foldName (c # cs) =
     (if of_char c < (128::nat) then toUpper c # foldName cs
      else (case cs of
              d # ds \<Rightarrow>
                (if c = CHR 0xC5 \<and> d = CHR 0xBF then CHR ''S'' # foldName ds
                 else (case ds of
                         e # es \<Rightarrow>
                           (if c = CHR 0xE2 \<and> d = CHR 0x84 \<and> e = CHR 0xAA
                            then CHR ''K'' # foldName es
                            else c # foldName cs)
                       | [] \<Rightarrow> c # foldName cs))
            | [] \<Rightarrow> [c]))"

definition name_matches :: "string \<Rightarrow> string \<Rightarrow> bool" where
  "name_matches field key \<longleftrightarrow> key = field \<or> foldName key = foldName field"

text \<open>Whether some key of an object selects the field of that name.\<close>

definition has_field :: "string \<Rightarrow> (string \<times> json) list \<Rightarrow> bool" where
  "has_field field ms = list_ex (\<lambda>m. name_matches field (fst m)) ms"


text \<open>
  Decoding into a Go value of a given type. JSON \<open>null\<close> leaves a string or an
  \<open>int\<close> as it was and makes a slice nil; a value of the wrong JSON kind is an
  \<open>UnmarshalTypeError\<close>, and the call that decodes the document returns it.
\<close>

fun unmarshal_string :: "string \<Rightarrow> json \<Rightarrow> error + string" where
  "unmarshal_string cur (JString s) = Inr s"
| "unmarshal_string cur JNull = Inr cur"
| "unmarshal_string cur _ = Inl (UnmarshalTypeError ''string'')"

definition int64 :: "int \<Rightarrow> bool" where
  "int64 n \<longleftrightarrow> - (2 ^ 63) \<le> n \<and> n < 2 ^ 63"

fun unmarshal_int :: "int \<Rightarrow> json \<Rightarrow> error + int" where
  "unmarshal_int cur (JInt n) = (if int64 n then Inr n else Inl (UnmarshalTypeError ''int''))"
| "unmarshal_int cur JNull = Inr cur"
| "unmarshal_int cur _ = Inl (UnmarshalTypeError ''int'')"

text \<open>
  \<open>[]string\<close>: the array is decoded into the slice the field already holds.
  \<open>backing\<close> is what the backing array of that slice holds, first its elements and
  then what is left beyond its length from an earlier decoding; beyond that the array is
  new and holds empty strings. Element \<open>i\<close> of the array is decoded into element \<open>i\<close>
  of the backing array, so \<open>null\<close> keeps what is there. The result is the new slice
  and what its backing array holds beyond it. An empty array gives a new empty slice,
  \<open>null\<close> gives the nil slice. (The field holds something before only when the same
  key occurs twice in one object.)
\<close>

fun unmarshal_elements :: "string list \<Rightarrow> json list \<Rightarrow> error + string list" where
  "unmarshal_elements backing [] = Inr []"
| "unmarshal_elements backing (j # js) =
     (case unmarshal_string (case backing of [] \<Rightarrow> [] | cur # _ \<Rightarrow> cur) j of
        Inl err \<Rightarrow> Inl err
      | Inr s \<Rightarrow>
          (case unmarshal_elements (tl backing) js of
             Inl err \<Rightarrow> Inl err
           | Inr ss \<Rightarrow> Inr (s # ss)))"

fun unmarshal_strings :: "string list \<Rightarrow> json \<Rightarrow> error + (string list option \<times> string list)" where
  "unmarshal_strings backing JNull = Inr (None, [])"
| "unmarshal_strings backing (JArray js) =
     (case unmarshal_elements backing js of
        Inl err \<Rightarrow> Inl err
      | Inr ss \<Rightarrow> Inr (if js = [] then (Some [], []) else (Some ss, drop (length js) backing)))"
| "unmarshal_strings backing _ = Inl (UnmarshalTypeError ''[]string'')"

text \<open>
  A struct is decoded member by member, in the order of the text; a key that matches no
  field is skipped. \<open>null\<close> for the whole struct leaves it as it was.
\<close>

fun unmarshal_members ::
  "('s \<Rightarrow> string \<Rightarrow> json \<Rightarrow> error + 's) \<Rightarrow> 's \<Rightarrow> (string \<times> json) list \<Rightarrow> error + 's" where
  "unmarshal_members store s [] = Inr s"
| "unmarshal_members store s ((k, v) # ms) =
     (case store s k v of
        Inl err \<Rightarrow> Inl err
      | Inr s' \<Rightarrow> unmarshal_members store s' ms)"

fun unmarshal_struct ::
  "('s \<Rightarrow> string \<Rightarrow> json \<Rightarrow> error + 's) \<Rightarrow> 's \<Rightarrow> json \<Rightarrow> error + 's" where
  "unmarshal_struct store s (JObject ms) = unmarshal_members store s ms"
| "unmarshal_struct store s JNull = Inr s"
| "unmarshal_struct store s _ = Inl (UnmarshalTypeError ''struct'')"

definition store_DenyCommand :: "DenyCommand \<Rightarrow> string \<Rightarrow> json \<Rightarrow> error + DenyCommand" where
  "store_DenyCommand d k v =
     (if name_matches ''command'' k then
        (case unmarshal_string (deny_Command d) v of
           Inl err \<Rightarrow> Inl err | Inr s \<Rightarrow> Inr (d\<lparr>deny_Command := s\<rparr>))
      else if name_matches ''message'' k then
        (case unmarshal_string (deny_Message d) v of
           Inl err \<Rightarrow> Inl err | Inr s \<Rightarrow> Inr (d\<lparr>deny_Message := s\<rparr>))
      else Inr d)"

text \<open>
  The variable \<open>cmdObj\<close> into which an allow entry is decoded: an \<open>AllowCommand\<close>,
  and what the backing arrays of its two slices hold beyond their lengths.
\<close>

record cmdObj = AllowCommand +
  SubCommands_spare :: "string list"
  DenySubCommands_spare :: "string list"

definition cmdObj_zero :: cmdObj where
  "cmdObj_zero =
     \<lparr>Command = [], SubCommands = [], DenySubCommands = [],
      SubCommands_spare = [], DenySubCommands_spare = []\<rparr>"

definition cmdObj_value :: "cmdObj \<Rightarrow> AllowCommand" where
  "cmdObj_value obj =
     \<lparr>Command = Command obj, SubCommands = SubCommands obj, DenySubCommands = DenySubCommands obj\<rparr>"

definition store_AllowCommand :: "cmdObj \<Rightarrow> string \<Rightarrow> json \<Rightarrow> error + cmdObj" where
  "store_AllowCommand a k v =
     (if name_matches ''command'' k then
        (case unmarshal_string (Command a) v of
           Inl err \<Rightarrow> Inl err | Inr s \<Rightarrow> Inr (a\<lparr>Command := s\<rparr>))
      else if name_matches ''subCommands'' k then
        (case unmarshal_strings (SubCommands a @ SubCommands_spare a) v of
           Inl err \<Rightarrow> Inl err
         | Inr (ss, spare) \<Rightarrow> Inr (a\<lparr>SubCommands := slice_list ss, SubCommands_spare := spare\<rparr>))
      else if name_matches ''denySubCommands'' k then
        (case unmarshal_strings (DenySubCommands a @ DenySubCommands_spare a) v of
           Inl err \<Rightarrow> Inl err
         | Inr (ss, spare) \<Rightarrow> Inr (a\<lparr>DenySubCommands := slice_list ss, DenySubCommands_spare := spare\<rparr>))
      else Inr a)"

definition deny_entry :: "string \<Rightarrow> DenyCommand" where
  "deny_entry cmd = \<lparr>deny_Command = cmd, deny_Message = []\<rparr>"

text \<open>
  \<open>json.RawMessage\<close>: the undecoded text of a value. A field of that type that no key
  of the object matched stays empty (\<open>None\<close>); a key whose value is \<open>null\<close> stores the
  text \<open>null\<close>. Decoding empty text fails with "unexpected end of JSON input".
\<close>

type_synonym RawMessage = "json option"

fun unmarshal_raw_messages :: "RawMessage \<Rightarrow> error + json list" where
  "unmarshal_raw_messages None = Inl (SyntaxError ''unexpected end of JSON input'')"
| "unmarshal_raw_messages (Some JNull) = Inr []"
| "unmarshal_raw_messages (Some (JArray js)) = Inr js"
| "unmarshal_raw_messages (Some _) = Inl (UnmarshalTypeError ''[]json.RawMessage'')"

text \<open>
  The loops of \<open>UnmarshalDenyCommands\<close> and \<open>UnmarshalAllowCommands\<close>: each entry is
  tried as a string first and, when that fails, as an object.
\<close>

fun deny_entries :: "json list \<Rightarrow> DenyCommand list \<Rightarrow> error + DenyCommand list" where
  "deny_entries [] result = Inr result"
| "deny_entries (raw # rest) result =
     (case unmarshal_string [] raw of
        Inr cmdStr \<Rightarrow> deny_entries rest (result @ [deny_entry cmdStr])
      | Inl _ \<Rightarrow>
          (case unmarshal_struct store_DenyCommand (deny_entry []) raw of
             Inl err \<Rightarrow> Inl err
           | Inr cmdObj \<Rightarrow> deny_entries rest (result @ [cmdObj])))"

definition UnmarshalDenyCommands :: "RawMessage \<Rightarrow> error + DenyCommand list" where
  "UnmarshalDenyCommands data =
     (case unmarshal_raw_messages data of
        Inl err \<Rightarrow> Inl err
      | Inr rawCommands \<Rightarrow> deny_entries rawCommands [])"

fun allow_entries :: "json list \<Rightarrow> AllowCommand list \<Rightarrow> error + AllowCommand list" where
  "allow_entries [] result = Inr result"
| "allow_entries (raw # rest) result =
     (case unmarshal_string [] raw of
        Inr cmdStr \<Rightarrow> allow_entries rest (result @ [allow_entry cmdStr])
      | Inl _ \<Rightarrow>
          (case unmarshal_struct store_AllowCommand cmdObj_zero raw of
             Inl err \<Rightarrow> Inl err
           | Inr obj \<Rightarrow> allow_entries rest (result @ [cmdObj_value obj])))"

definition UnmarshalAllowCommands :: "RawMessage \<Rightarrow> error + AllowCommand list" where
  "UnmarshalAllowCommands data =
     (case unmarshal_raw_messages data of
        Inl err \<Rightarrow> Inl err
      | Inr rawCommands \<Rightarrow> allow_entries rawCommands [])"

text \<open>
  The anonymous struct \<open>raw\<close> of \<open>ShellCommandConfig.UnmarshalJSON\<close>, and what the
  backing array of its \<open>AllowedDirectories\<close> holds beyond the length of the slice.
\<close>

record raw_config =
  raw_AllowedDirectories :: "string list option"
  raw_AllowedDirectories_spare :: "string list"
  raw_AllowCommands :: RawMessage
  raw_DenyCommands :: RawMessage
  raw_DefaultErrorMessage :: string
  raw_BlockLogPath :: string
  raw_MaxExecutionTime :: int
  raw_MaxOutputSize :: int

definition raw_zero :: raw_config where
  "raw_zero =
     \<lparr>raw_AllowedDirectories = None, raw_AllowedDirectories_spare = [],
      raw_AllowCommands = None, raw_DenyCommands = None,
      raw_DefaultErrorMessage = [], raw_BlockLogPath = [],
      raw_MaxExecutionTime = 0, raw_MaxOutputSize = 0\<rparr>"

definition store_raw :: "raw_config \<Rightarrow> string \<Rightarrow> json \<Rightarrow> error + raw_config" where
  "store_raw r k v =
     (if name_matches ''allowedDirectories'' k then
        (case unmarshal_strings (slice_list (raw_AllowedDirectories r) @ raw_AllowedDirectories_spare r) v of
           Inl err \<Rightarrow> Inl err
         | Inr (ds, spare) \<Rightarrow>
             Inr (r\<lparr>raw_AllowedDirectories := ds, raw_AllowedDirectories_spare := spare\<rparr>))
      else if name_matches ''allowCommands'' k then Inr (r\<lparr>raw_AllowCommands := Some v\<rparr>)
      else if name_matches ''denyCommands'' k then Inr (r\<lparr>raw_DenyCommands := Some v\<rparr>)
      else if name_matches ''defaultErrorMessage'' k then
        (case unmarshal_string (raw_DefaultErrorMessage r) v of
           Inl err \<Rightarrow> Inl err | Inr s \<Rightarrow> Inr (r\<lparr>raw_DefaultErrorMessage := s\<rparr>))
      else if name_matches ''blockLogPath'' k then
        (case unmarshal_string (raw_BlockLogPath r) v of
           Inl err \<Rightarrow> Inl err | Inr s \<Rightarrow> Inr (r\<lparr>raw_BlockLogPath := s\<rparr>))
      else if name_matches ''maxExecutionTime'' k then
        (case unmarshal_int (raw_MaxExecutionTime r) v of
           Inl err \<Rightarrow> Inl err | Inr n \<Rightarrow> Inr (r\<lparr>raw_MaxExecutionTime := n\<rparr>))
      else if name_matches ''maxOutputSize'' k then
        (case unmarshal_int (raw_MaxOutputSize r) v of
           Inl err \<Rightarrow> Inl err | Inr n \<Rightarrow> Inr (r\<lparr>raw_MaxOutputSize := n\<rparr>))
      else Inr r)"

text \<open>
  The policy that \<open>UnmarshalJSON\<close> builds once the three decodings have succeeded
  (every field of the receiver is assigned, so the result does not depend on what the
  receiver held before).
\<close>

definition config_of_raw :: "raw_config \<Rightarrow> AllowCommand list \<Rightarrow> DenyCommand list \<Rightarrow> ShellCommandConfig" where
  "config_of_raw r allowCommands denyCommands =
     \<lparr>AllowedDirectories = raw_AllowedDirectories r,
      AllowCommands = Some allowCommands,
      DenyCommands = Some denyCommands,
      DefaultErrorMessage =
        (if raw_DefaultErrorMessage r \<noteq> [] then raw_DefaultErrorMessage r
         else ''Command not allowed by security policy''),
      BlockLogPath = raw_BlockLogPath r,
      MaxExecutionTime =
        (if raw_MaxExecutionTime r > 0 then raw_MaxExecutionTime r else DefaultExecutionTimeout),
      MaxOutputSize =
        (if raw_MaxOutputSize r > 0 then raw_MaxOutputSize r else DefaultMaxOutputSize)\<rparr>"

definition UnmarshalJSON :: "json \<Rightarrow> error + ShellCommandConfig" where
  "UnmarshalJSON data =
     (case unmarshal_struct store_raw raw_zero data of
        Inl err \<Rightarrow> Inl err
      | Inr r \<Rightarrow>
          (case UnmarshalAllowCommands (raw_AllowCommands r) of
             Inl err \<Rightarrow> Inl (Errorf ''error unmarshaling allow commands'' (Some err))
           | Inr allowCommands \<Rightarrow>
               (case UnmarshalDenyCommands (raw_DenyCommands r) of
                  Inl err \<Rightarrow> Inl (Errorf ''error unmarshaling deny commands'' (Some err))
                | Inr denyCommands \<Rightarrow> Inr (config_of_raw r allowCommands denyCommands))))"

text \<open>
  \<open>LoadConfigFromFile\<close>. The file system and the JSON parser are collaborators:
  \<open>readFile\<close> is \<open>os.ReadFile\<close> and \<open>parse\<close> turns the bytes of a document into its
  value or fails with a syntax error, as \<open>json.Unmarshal\<close> does before it hands the
  document to \<open>UnmarshalJSON\<close>.
\<close>

definition LoadConfigFromFile ::
  "(string \<Rightarrow> error + string) \<Rightarrow> (string \<Rightarrow> error + json) \<Rightarrow> string \<Rightarrow> error + ShellCommandConfig" where
  "LoadConfigFromFile readFile parse filePath =
     (case readFile filePath of
        Inl err \<Rightarrow> Inl (Errorf ''failed to read config file'' (Some err))
      | Inr fileBytes \<Rightarrow>
          (case parse fileBytes of
             Inl err \<Rightarrow> Inl (Errorf ''failed to decode config file'' (Some err))
           | Inr doc \<Rightarrow>
               (case UnmarshalJSON doc of
                  Inl err \<Rightarrow> Inl (Errorf ''failed to decode config file'' (Some err))
                | Inr config \<Rightarrow> Inr config)))"

text \<open>
  Serialising a policy again is \<open>json.Marshal\<close> on the structs as the source declares
  them: no type has a \<open>MarshalJSON\<close> of its own, so the field tags decide. Fields come
  in the order of declaration, a field tagged \<open>omitempty\<close> is left out when it is
  empty, a nil slice prints as \<open>null\<close>.
\<close>

definition marshal_DenyCommand :: "DenyCommand \<Rightarrow> json" where
  "marshal_DenyCommand d =
     JObject ([(''command'', JString (deny_Command d))]
       @ (if deny_Message d = [] then [] else [(''message'', JString (deny_Message d))]))"

definition marshal_AllowCommand :: "AllowCommand \<Rightarrow> json" where
  "marshal_AllowCommand a =
     JObject ([(''command'', JString (Command a))]
       @ (if SubCommands a = [] then []
          else [(''subCommands'', JArray (map JString (SubCommands a)))])
       @ (if DenySubCommands a = [] then []
          else [(''denySubCommands'', JArray (map JString (DenySubCommands a)))]))"

definition Marshal :: "ShellCommandConfig \<Rightarrow> json" where
  "Marshal c =
     JObject ([(''allowedDirectories'',
                 (case AllowedDirectories c of None \<Rightarrow> JNull | Some ds \<Rightarrow> JArray (map JString ds))),
               (''allowCommands'',
                 (case AllowCommands c of
                    None \<Rightarrow> JNull | Some rules \<Rightarrow> JArray (map marshal_AllowCommand rules))),
               (''denyCommands'',
                 (case DenyCommands c of
                    None \<Rightarrow> JNull | Some rules \<Rightarrow> JArray (map marshal_DenyCommand rules))),
               (''defaultErrorMessage'', JString (DefaultErrorMessage c))]
       @ (if BlockLogPath c = [] then [] else [(''blockLogPath'', JString (BlockLogPath c))])
       @ (if MaxExecutionTime c = 0 then [] else [(''maxExecutionTime'', JInt (MaxExecutionTime c))])
       @ (if MaxOutputSize c = 0 then [] else [(''maxOutputSize'', JInt (MaxOutputSize c))]))"

text \<open>The value an object gives for a key, as a reader of the JSON text sees it.\<close>

definition member :: "json \<Rightarrow> string \<Rightarrow> json option" where
  "member j k = (case j of JObject ms \<Rightarrow> map_of ms k | _ \<Rightarrow> None)"









section \<open>The runner (package runner)\<close>

text \<open>
  Modelled from the spec: the type \<open>config.ShellConfig\<close> that \<open>SafeRunner\<close> holds is
  not declared in the sources at hand. It is taken to be the policy above (whose
  \<open>IsCommandAllowed\<close> and \<open>MaxExecutionTime\<close> the runner uses) together with the two
  further fields that \<open>Run\<close> and \<open>RunScript\<close> read: the restricted environment "listed
  in policy" and the "configured directory". \<open>RestrictedEnv\<close> is a Go map from names to
  values; the list gives its entries in the order in which \<open>range\<close> happens to visit
  them, each name once.
\<close>

record ShellConfig = ShellCommandConfig +
  RestrictedEnv :: "(string \<times> string) list"
  WorkingDir :: string

text \<open>
  Time is a clock in nanoseconds. A context carries at most a deadline on that clock.
  \<open>time.Duration(n) * time.Second\<close> is a 64-bit product and wraps.
  \<open>context.WithTimeout(parent, d)\<close> at time \<open>t\<close> asks for the deadline \<open>t + d\<close>; when the
  parent's deadline is already sooner, the context it returns keeps the parent's.
\<close>

record Context =
  Deadline :: "int option"

definition Background :: Context where
  "Background = \<lparr>Deadline = None\<rparr>"

definition wrap64 :: "int \<Rightarrow> int" where
  "wrap64 n = (n + 2 ^ 63) mod 2 ^ 64 - 2 ^ 63"

definition Seconds :: "int \<Rightarrow> int" where
  "Seconds n = wrap64 (n * 1000000000)"

definition WithTimeout :: "Context \<Rightarrow> int \<Rightarrow> int \<Rightarrow> Context" where
  "WithTimeout parent d t =
     (case Deadline parent of
        Some cur \<Rightarrow> (if cur < t + d then parent else \<lparr>Deadline = Some (t + d)\<rparr>)
      | None \<Rightarrow> \<lparr>Deadline = Some (t + d)\<rparr>)"

text \<open>
  \<open>exec.Cmd\<close> as \<open>Run\<close> fills it in. \<open>Env = None\<close> is the nil slice that
  \<open>exec.CommandContext\<close> leaves there; \<open>Dir\<close> is empty unless set. \<open>Stdout\<close> and
  \<open>Stderr\<close> are always the runner's two writers and are not fields here: the bytes
  that arrive at them are part of the state below.
\<close>

record Cmd =
  Path :: string
  Args :: "string list"
  Env :: "string list option"
  Dir :: string
  Ctx :: Context

text \<open>
  What is observable of one call: the calls on the logger (package \<open>logger\<close> is a
  collaborator; each call is recorded with its arguments), the calls of
  \<open>ValidateScript\<close>, \<open>interp.New\<close> and \<open>command.Run()\<close>, in the order in which they
  happen, the bytes that reached the runner's \<open>stdout\<close> and \<open>stderr\<close>, and the clock.
\<close>

datatype event =
    LogCommandAttempt string "string list" bool
  | LogErrorf string error
  | ScriptValidated string
  | InterpreterCreated "string list"
  | CommandRun Cmd

record world =
  now :: int
  trace :: "event list"
  stdout :: string
  stderr :: string

definition emit :: "event \<Rightarrow> world \<Rightarrow> world" where
  "emit ev w = w\<lparr>trace := trace w @ [ev]\<rparr>"

text \<open>
  The embedded interpreter (\<open>mvdan.cc/sh/v3/interp\<close>) is a collaborator. Its run of a
  program is a tree of what it does towards the runner: it returns (\<open>Exit\<close>), it
  hands an argument vector to the exec handler and goes on according to the error
  that comes back (\<open>Exec\<close>), it writes output of its own, for instance of a builtin,
  to the standard output (\<open>True\<close>) or the standard error it was given (\<open>Output\<close>), or
  it lets time pass (\<open>Elapse\<close>). Every path of such a tree is finite; a run that is
  cut short is the tree that exits at that point.
\<close>

datatype interp =
    Exit "error option"
  | Exec "string list" "error option \<Rightarrow> interp"
  | Output bool string interp
  | Elapse nat interp

text \<open>
  The operating system and the libraries: the environment of the server process
  (\<open>os.Environ()\<close>), \<open>filepath.Abs\<close> in the server's working directory, what a
  process started from a given \<open>exec.Cmd\<close> at a given time does (its output, the
  error \<open>command.Run()\<close> returns, the time it takes), the shell parser, and the
  interpreter (\<open>interp.New\<close> on an environment, and the run of a program).
\<close>

record proc_result =
  proc_stdout :: string
  proc_stderr :: string
  proc_error :: "error option"
  proc_elapsed :: nat

record 'p externals =
  Environ :: "string list"
  Abs :: "string \<Rightarrow> error + string"
  Process :: "Cmd \<Rightarrow> int \<Rightarrow> proc_result"
  Parse :: "string \<Rightarrow> error + 'p"
  InterpNew :: "string list \<Rightarrow> error option"
  InterpRun :: "'p \<Rightarrow> string list \<Rightarrow> interp"

text \<open>
  \<open>SafeRunner\<close>: the configuration and the validator (package \<open>validator\<close> is not in
  the sources at hand; \<open>validator\<close> is what its \<open>ValidateScript\<close> returns for a script).
  The logger and the two writers are the state.
\<close>

record SafeRunner =
  config :: ShellConfig
  validator :: "string \<Rightarrow> bool \<times> error option"






definition env_pairs :: "(string \<times> string) list \<Rightarrow> string list" where
  "env_pairs m = map (\<lambda>(k, v). k @ ''='' @ v) m"

text \<open>\<open>command.Run()\<close>: the process writes to the runner's writers as they are.\<close>

definition command_Run :: "'p externals \<Rightarrow> Cmd \<Rightarrow> world \<Rightarrow> error option \<times> world" where
  "command_Run x command w =
     (let p = Process x command (now w) in
      (proc_error p,
       w\<lparr>now := now w + int (proc_elapsed p),
         trace := trace w @ [CommandRun command],
         stdout := stdout w @ proc_stdout p,
         stderr := stderr w @ proc_stderr p\<rparr>))"

text \<open>
  \<open>Run\<close> and \<open>RunScript\<close> each contain the same lines, "create a timeout context if
  MaxExecutionTime is set"; \<open>t\<close> is the time at which they are reached.
\<close>

definition timeout_context :: "SafeRunner \<Rightarrow> Context \<Rightarrow> int \<Rightarrow> Context" where
  "timeout_context r ctx t =
     (if MaxExecutionTime (config r) > 0
      then WithTimeout ctx (Seconds (MaxExecutionTime (config r))) t
      else ctx)"

text \<open>The \<open>exec.Cmd\<close> that \<open>Run\<close> builds for \<open>args = cmd # rest\<close> under the context \<open>ctx\<close>.\<close>

definition make_command :: "SafeRunner \<Rightarrow> Context \<Rightarrow> string \<Rightarrow> string list \<Rightarrow> Cmd" where
  "make_command r ctx cmd rest =
     \<lparr>Path = cmd,
      Args = cmd # rest,
      Env = (if length (RestrictedEnv (config r)) > 0
             then Some (env_pairs (RestrictedEnv (config r))) else None),
      Dir = (if WorkingDir (config r) \<noteq> [] then WorkingDir (config r) else []),
      Ctx = ctx\<rparr>"

definition Run :: "'p externals \<Rightarrow> SafeRunner \<Rightarrow> Context \<Rightarrow> string list \<Rightarrow> world \<Rightarrow> error option \<times> world" where
  "Run x r ctx args w =
     (case args of
        [] \<Rightarrow> (Some (New ''no command provided''), w)
      | cmd # rest \<Rightarrow>
          if \<not> IsCommandAllowed (config r) cmd
          then (Some (NotPermitted cmd), emit (LogCommandAttempt cmd rest False) w)
          else
            let w1 = emit (LogCommandAttempt cmd rest True) w;
                ctx1 = timeout_context r ctx (now w1);
                command = make_command r ctx1 cmd rest
            in (case command_Run x command w1 of
                  (Some err, w2) \<Rightarrow>
                    (Some (Errorf ''command execution error'' (Some err)),
                     emit (LogErrorf ''Command execution error: %v'' err) w2)
                | (None, w2) \<Rightarrow> (None, w2)))"

text \<open>The interpreter's run against an exec handler \<open>h\<close>, under the context it was started with.\<close>

primrec run_interp ::
  "(Context \<Rightarrow> string list \<Rightarrow> world \<Rightarrow> error option \<times> world) \<Rightarrow> Context \<Rightarrow> interp \<Rightarrow> world
     \<Rightarrow> error option \<times> world" where
  "run_interp h ctx (Exit err) w = (err, w)"
| "run_interp h ctx (Exec args k) w = (case h ctx args w of (err, w') \<Rightarrow> run_interp h ctx (k err) w')"
| "run_interp h ctx (Output out bytes i) w =
     run_interp h ctx i (if out then w\<lparr>stdout := stdout w @ bytes\<rparr> else w\<lparr>stderr := stderr w @ bytes\<rparr>)"
| "run_interp h ctx (Elapse n i) w = run_interp h ctx i (w\<lparr>now := now w + int n\<rparr>)"

definition execHandler :: "'p externals \<Rightarrow> SafeRunner \<Rightarrow> Context \<Rightarrow> string list \<Rightarrow> world \<Rightarrow> error option \<times> world" where
  "execHandler x r ctx args w = Run x r ctx args w"

text \<open>
  Modelled from the spec: every "run this program" step goes "back through the exact
  same enforcement used by \<open>Run\<close>". \<open>direct_runs\<close> is the run of a program in which
  each such step is a direct call of \<open>Run\<close> on the argument vector of the step, in
  the state the run has reached; it is what \<open>RunScript\<close> is compared with.
\<close>

primrec direct_runs ::
  "'p externals \<Rightarrow> SafeRunner \<Rightarrow> Context \<Rightarrow> interp \<Rightarrow> world \<Rightarrow> error option \<times> world" where
  "direct_runs x r ctx (Exit err) w = (err, w)"
| "direct_runs x r ctx (Exec args k) w = (case Run x r ctx args w of (err, w') \<Rightarrow> direct_runs x r ctx (k err) w')"
| "direct_runs x r ctx (Output out bytes i) w =
     direct_runs x r ctx i (if out then w\<lparr>stdout := stdout w @ bytes\<rparr> else w\<lparr>stderr := stderr w @ bytes\<rparr>)"
| "direct_runs x r ctx (Elapse n i) w = direct_runs x r ctx i (w\<lparr>now := now w + int n\<rparr>)"

text \<open>What \<open>RunScript\<close> makes of the outcome of the interpreter's run.\<close>

definition script_outcome :: "error option \<times> world \<Rightarrow> error option \<times> world" where
  "script_outcome res =
     (case res of
        (Some rerr, w2) \<Rightarrow>
          (Some (Errorf ''script execution error'' (Some rerr)),
           emit (LogErrorf ''Script execution error: %v'' rerr) w2)
      | (None, w2) \<Rightarrow> (None, w2))"

definition RunScript :: "'p externals \<Rightarrow> SafeRunner \<Rightarrow> Context \<Rightarrow> string \<Rightarrow> world \<Rightarrow> error option \<times> world" where
  "RunScript x r ctx script w =
     (case validator r script of
        (valid, err) \<Rightarrow>
          let w0 = emit (ScriptValidated script) w in
          if \<not> valid \<or> err \<noteq> None
          then (Some (Errorf ''script validation failed'' err), w0)
          else
            (case Parse x script of
               Inl perr \<Rightarrow>
                 (Some (Errorf ''parse error'' (Some perr)), emit (LogErrorf ''Parse error: %v'' perr) w0)
             | Inr prog \<Rightarrow>
                 let ctx1 = timeout_context r ctx (now w0);
                     envPairs = env_pairs (RestrictedEnv (config r))
                 in (case InterpNew x envPairs of
                       Some ierr \<Rightarrow>
                         (Some (Errorf ''interpreter creation error'' (Some ierr)),
                          emit (LogErrorf ''Interpreter creation error: %v'' ierr) w0)
                     | None \<Rightarrow>
                         (case run_interp (execHandler x r) ctx1 (InterpRun x prog envPairs)
                                 (emit (InterpreterCreated envPairs) w0) of
                            (Some rerr, w2) \<Rightarrow>
                              (Some (Errorf ''script execution error'' (Some rerr)),
                               emit (LogErrorf ''Script execution error: %v'' rerr) w2)
                          | (None, w2) \<Rightarrow> (None, w2)))))"

text \<open>\<open>RunScriptFile\<close>: \<open>reader\<close> is what \<open>io.ReadAll\<close> returns for the reader.\<close>

definition RunScriptFile :: "'p externals \<Rightarrow> SafeRunner \<Rightarrow> Context \<Rightarrow> error + string \<Rightarrow> world \<Rightarrow> error option \<times> world" where
  "RunScriptFile x r ctx reader w =
     (case reader of
        Inl err \<Rightarrow>
          (Some (Errorf ''script reading error'' (Some err)), emit (LogErrorf ''Script reading error: %v'' err) w)
      | Inr scriptBytes \<Rightarrow> RunScript x r ctx scriptBytes w)"

text \<open>The processes a trace asked for, oldest first.\<close>

fun launches :: "event list \<Rightarrow> Cmd list" where
  "launches [] = []"
| "launches (CommandRun command # evs) = command # launches evs"
| "launches (_ # evs) = launches evs"

fun attempts :: "event list \<Rightarrow> event list" where
  "attempts [] = []"
| "attempts (LogCommandAttempt cmd args ok # evs) = LogCommandAttempt cmd args ok # attempts evs"
| "attempts (_ # evs) = attempts evs"

text \<open>
  The state right after an allowed command has been logged and run, whatever error
  the process ended with.
\<close>

definition launched :: "'p externals \<Rightarrow> SafeRunner \<Rightarrow> Context \<Rightarrow> string \<Rightarrow> string list \<Rightarrow> world \<Rightarrow> world" where
  "launched x r ctx cmd rest w =
     (let command = make_command r (timeout_context r ctx (now w)) cmd rest;
          p = Process x command (now w)
      in w\<lparr>now := now w + int (proc_elapsed p),
           trace := trace w @ [LogCommandAttempt cmd rest True, CommandRun command],
           stdout := stdout w @ proc_stdout p,
           stderr := stderr w @ proc_stderr p\<rparr>)"

text \<open>
  Modelled from the spec: no function of the sources compares a directory with
  \<open>AllowedDirectories\<close>. The spec calls them "absolute path prefixes" under one of
  which the working directory must lie; this is that relation on the path strings,
  used only to say what the claim about the working directory asks for.
\<close>

definition under_allowed :: "string list \<Rightarrow> string \<Rightarrow> bool" where
  "under_allowed dirs d = list_ex (\<lambda>p. take (length p) d = p) dirs"

section \<open>Example inputs\<close>

text \<open>
  A small world on which the theorems below are evaluated: every process prints
  \<open>abc\<close> and \<open>!\<close>, succeeds and takes five nanoseconds; paths are absolute already;
  the parser accepts every script; the interpreter runs \<open>ls\<close> and then \<open>cat f\<close>
  through the exec handler and, as \<open>mvdan.cc/sh\<close> does, stops with the error when the
  handler returns one.
\<close>

definition example_externals :: "unit externals" where
  "example_externals =
     \<lparr>Environ = [''HOME=/root'', ''SECRET=1''],
      Abs = (\<lambda>path. Inr path),
      Process = (\<lambda>command t. \<lparr>proc_stdout = ''abc'', proc_stderr = ''!'', proc_error = None, proc_elapsed = 5\<rparr>),
      Parse = (\<lambda>script. Inr ()),
      InterpNew = (\<lambda>env. None),
      InterpRun = (\<lambda>prog env.
        Exec [''ls''] (\<lambda>err. case err of
            Some e \<Rightarrow> Exit (Some e)
          | None \<Rightarrow> Exec [''cat'', ''f''] (\<lambda>err'. Exit err')))\<rparr>"

definition runner_config :: "ShellCommandConfig \<Rightarrow> (string \<times> string) list \<Rightarrow> string \<Rightarrow> ShellConfig" where
  "runner_config c env dir =
     \<lparr>AllowedDirectories = AllowedDirectories c, AllowCommands = AllowCommands c,
      DenyCommands = DenyCommands c, DefaultErrorMessage = DefaultErrorMessage c,
      BlockLogPath = BlockLogPath c, MaxExecutionTime = MaxExecutionTime c,
      MaxOutputSize = MaxOutputSize c, RestrictedEnv = env, WorkingDir = dir\<rparr>"

definition fresh_world :: world where
  "fresh_world = \<lparr>now = 0, trace = [], stdout = [], stderr = []\<rparr>"

definition accept_all :: "string \<Rightarrow> bool \<times> error option" where
  "accept_all script = (True, None)"

definition default_runner :: SafeRunner where
  "default_runner = \<lparr>config = runner_config NewDefaultConfig [] [], validator = accept_all\<rparr>"

text \<open>
  The same world with an interpreter that tries \<open>rm -rf /\<close> between the two; a
  validator that rejects every script; runners whose configuration is the default
  policy with one thing changed.
\<close>

definition script_externals :: "unit externals" where
  "script_externals =
     example_externals\<lparr>InterpRun :=
       (\<lambda>prog env.
          Exec [''ls''] (\<lambda>err. case err of
              Some e \<Rightarrow> Exit (Some e)
            | None \<Rightarrow>
                Exec [''rm'', ''-rf'', ''/''] (\<lambda>err'. case err' of
                    Some e \<Rightarrow> Exit (Some e)
                  | None \<Rightarrow> Exec [''cat'', ''f''] (\<lambda>err''. Exit err''))))\<rparr>"

definition reject_all :: "string \<Rightarrow> bool \<times> error option" where
  "reject_all script = (False, Some (New ''command not allowed''))"

definition rejecting_runner :: SafeRunner where
  "rejecting_runner = \<lparr>config = runner_config NewDefaultConfig [] [], validator = reject_all\<rparr>"

definition env_runner :: SafeRunner where
  "env_runner = \<lparr>config = runner_config NewDefaultConfig [(''PATH'', ''/bin'')] [], validator = accept_all\<rparr>"

definition env_etc_runner :: SafeRunner where
  "env_etc_runner =
     \<lparr>config = runner_config NewDefaultConfig [(''PATH'', ''/bin'')] ''/etc'', validator = accept_all\<rparr>"

definition etc_runner :: SafeRunner where
  "etc_runner = \<lparr>config = runner_config NewDefaultConfig [] ''/etc'', validator = accept_all\<rparr>"

definition small_cap_runner :: SafeRunner where
  "small_cap_runner =
     \<lparr>config = runner_config (NewDefaultConfig\<lparr>MaxOutputSize := 2\<rparr>) [] [], validator = accept_all\<rparr>"

definition no_timeout_runner :: SafeRunner where
  "no_timeout_runner =
     \<lparr>config = runner_config (NewDefaultConfig\<lparr>MaxExecutionTime := 0\<rparr>) [] [], validator = accept_all\<rparr>"

text \<open>The default policy, which denies \<open>rm\<close>, after \<open>AddAllowedCommand\<close> of \<open>rm\<close>.\<close>

definition allow_and_deny_rm :: SafeRunner where
  "allow_and_deny_rm =
     \<lparr>config = runner_config (AddAllowedCommand NewDefaultConfig ''rm'') [] [], validator = accept_all\<rparr>"





definition no_allow_policy :: "(string \<times> json) list" where
  "no_allow_policy =
     [(''allowedDirectories'', JArray [JString ''/tmp'']),
      (''denyCommands'', JArray [JString ''rm''])]"


section \<open>Facts about the policy model\<close>

lemma allowed_in_iff: "allowed_in xs cmd \<longleftrightarrow> cmd \<in> Command ` set xs"
  by (induction xs) auto

lemma IsCommandAllowed_dirs [simp]:
  "IsCommandAllowed (c\<lparr>AllowedDirectories := dirs\<rparr>) cmd = IsCommandAllowed c cmd"
  by (simp add: IsCommandAllowed_def)

lemma IsCommandAllowed_cap [simp]:
  "IsCommandAllowed (c\<lparr>MaxOutputSize := n\<rparr>) cmd = IsCommandAllowed c cmd"
  by (simp add: IsCommandAllowed_def)


section \<open>Facts about decoding and serialising\<close>


lemma name_matches_fields [simp]:
  "name_matches ''command'' ''command''"
  "name_matches ''message'' ''message''"
  "\<not> name_matches ''command'' ''message''"
  "\<not> name_matches ''command'' ''subCommands''"
  "\<not> name_matches ''command'' ''denySubCommands''"
  "name_matches ''subCommands'' ''subCommands''"
  "\<not> name_matches ''subCommands'' ''denySubCommands''"
  "name_matches ''denySubCommands'' ''denySubCommands''"
  by (simp_all add: name_matches_def)

lemma name_matches_config [simp]:
  "name_matches ''allowedDirectories'' ''allowedDirectories''"
  "\<not> name_matches ''allowedDirectories'' ''allowCommands''"
  "name_matches ''allowCommands'' ''allowCommands''"
  "\<not> name_matches ''allowedDirectories'' ''denyCommands''"
  "\<not> name_matches ''allowCommands'' ''denyCommands''"
  "name_matches ''denyCommands'' ''denyCommands''"
  "\<not> name_matches ''allowedDirectories'' ''defaultErrorMessage''"
  "\<not> name_matches ''allowCommands'' ''defaultErrorMessage''"
  "\<not> name_matches ''denyCommands'' ''defaultErrorMessage''"
  "name_matches ''defaultErrorMessage'' ''defaultErrorMessage''"
  "\<not> name_matches ''allowedDirectories'' ''blockLogPath''"
  "\<not> name_matches ''allowCommands'' ''blockLogPath''"
  "\<not> name_matches ''denyCommands'' ''blockLogPath''"
  "\<not> name_matches ''defaultErrorMessage'' ''blockLogPath''"
  "name_matches ''blockLogPath'' ''blockLogPath''"
  "\<not> name_matches ''allowedDirectories'' ''maxExecutionTime''"
  "\<not> name_matches ''allowCommands'' ''maxExecutionTime''"
  "\<not> name_matches ''denyCommands'' ''maxExecutionTime''"
  "\<not> name_matches ''defaultErrorMessage'' ''maxExecutionTime''"
  "\<not> name_matches ''blockLogPath'' ''maxExecutionTime''"
  "name_matches ''maxExecutionTime'' ''maxExecutionTime''"
  "\<not> name_matches ''allowedDirectories'' ''maxOutputSize''"
  "\<not> name_matches ''allowCommands'' ''maxOutputSize''"
  "\<not> name_matches ''denyCommands'' ''maxOutputSize''"
  "\<not> name_matches ''defaultErrorMessage'' ''maxOutputSize''"
  "\<not> name_matches ''blockLogPath'' ''maxOutputSize''"
  "\<not> name_matches ''maxExecutionTime'' ''maxOutputSize''"
  "name_matches ''maxOutputSize'' ''maxOutputSize''"
  by (simp_all add: name_matches_def)

lemma unmarshal_elements_strings [simp]:
  "unmarshal_elements backing (map JString xs) = Inr xs"
  by (induction xs arbitrary: backing) simp_all

lemma unmarshal_strings_array [simp]:
  "unmarshal_strings [] (JArray (map JString xs)) = Inr (if xs = [] then (Some [], []) else (Some xs, []))"
  by simp










lemma UnmarshalJSON_Inr:
  assumes "UnmarshalJSON j = Inr c"
  obtains r as ds where
    "unmarshal_struct store_raw raw_zero j = Inr r"
    "UnmarshalAllowCommands (raw_AllowCommands r) = Inr as"
    "UnmarshalDenyCommands (raw_DenyCommands r) = Inr ds"
    "c = config_of_raw r as ds"
  using assms by (auto simp: UnmarshalJSON_def split: sum.splits)





lemma store_raw_keeps_allow:
  "\<not> name_matches ''allowCommands'' k \<Longrightarrow> store_raw r k v = Inr r' \<Longrightarrow>
   raw_AllowCommands r' = raw_AllowCommands r"
  by (auto simp: store_raw_def split: if_splits sum.splits prod.splits)

lemma store_raw_keeps_deny:
  "\<not> name_matches ''denyCommands'' k \<Longrightarrow> store_raw r k v = Inr r' \<Longrightarrow>
   raw_DenyCommands r' = raw_DenyCommands r"
  by (auto simp: store_raw_def split: if_splits sum.splits prod.splits)













lemma cmdObj_value_decoded [simp]:
  "cmdObj_value \<lparr>Command = Command a, SubCommands = SubCommands a, DenySubCommands = DenySubCommands a,
                 SubCommands_spare = sp, DenySubCommands_spare = dsp\<rparr> = a"
  by (cases a) (simp add: cmdObj_value_def)



lemma members_keep_allow:
  "\<not> has_field ''allowCommands'' ms \<Longrightarrow> unmarshal_members store_raw r ms = Inr r' \<Longrightarrow>
   raw_AllowCommands r' = raw_AllowCommands r"
proof (induction ms arbitrary: r)
  case Nil
  then show ?case by simp
next
  case (Cons m ms)
  obtain k v where m: "m = (k, v)" by (cases m)
  from Cons.prems(2) m obtain r1 where
    s: "store_raw r k v = Inr r1" and rest: "unmarshal_members store_raw r1 ms = Inr r'"
    by (auto split: sum.splits)
  from Cons.prems(1) m have nk: "\<not> name_matches ''allowCommands'' k" and nms: "\<not> has_field ''allowCommands'' ms"
    by (simp_all add: has_field_def)
  from store_raw_keeps_allow[OF nk s] Cons.IH[OF nms rest] show ?case by simp
qed

lemma members_keep_deny:
  "\<not> has_field ''denyCommands'' ms \<Longrightarrow> unmarshal_members store_raw r ms = Inr r' \<Longrightarrow>
   raw_DenyCommands r' = raw_DenyCommands r"
proof (induction ms arbitrary: r)
  case Nil
  then show ?case by simp
next
  case (Cons m ms)
  obtain k v where m: "m = (k, v)" by (cases m)
  from Cons.prems(2) m obtain r1 where
    s: "store_raw r k v = Inr r1" and rest: "unmarshal_members store_raw r1 ms = Inr r'"
    by (auto split: sum.splits)
  from Cons.prems(1) m have nk: "\<not> name_matches ''denyCommands'' k" and nms: "\<not> has_field ''denyCommands'' ms"
    by (simp_all add: has_field_def)
  from store_raw_keeps_deny[OF nk s] Cons.IH[OF nms rest] show ?case by simp
qed

lemma UnmarshalJSON_needs_lists:
  assumes "UnmarshalJSON (JObject ms) = Inr c"
  shows "has_field ''allowCommands'' ms \<and> has_field ''denyCommands'' ms"
proof -
  from assms obtain r as ds where
    r: "unmarshal_struct store_raw raw_zero (JObject ms) = Inr r"
    and a: "UnmarshalAllowCommands (raw_AllowCommands r) = Inr as"
    and d: "UnmarshalDenyCommands (raw_DenyCommands r) = Inr ds"
    by (rule UnmarshalJSON_Inr)
  from r have m: "unmarshal_members store_raw raw_zero ms = Inr r" by simp
  have "has_field ''allowCommands'' ms"
  proof (rule ccontr)
    assume "\<not> has_field ''allowCommands'' ms"
    from members_keep_allow[OF this m] have "raw_AllowCommands r = None" by (simp add: raw_zero_def)
    with a show False by (simp add: UnmarshalAllowCommands_def)
  qed
  moreover have "has_field ''denyCommands'' ms"
  proof (rule ccontr)
    assume "\<not> has_field ''denyCommands'' ms"
    from members_keep_deny[OF this m] have "raw_DenyCommands r = None" by (simp add: raw_zero_def)
    with d show False by (simp add: UnmarshalDenyCommands_def)
  qed
  ultimately show ?thesis by simp
qed

lemmas json_defs =
  UnmarshalJSON_def UnmarshalAllowCommands_def UnmarshalDenyCommands_def store_raw_def raw_zero_def
  config_of_raw_def allow_entry_def deny_entry_def Marshal_def marshal_AllowCommand_def
  marshal_DenyCommand_def member_def store_AllowCommand_def store_DenyCommand_def slice_list_def
  cmdObj_zero_def cmdObj_value_def DefaultExecutionTimeout_def DefaultMaxOutputSize_def



section \<open>Facts about the environment of a process\<close>









section \<open>Facts about the runner\<close>

lemma launches_append: "launches (xs @ ys) = launches xs @ launches ys"
  by (induction xs rule: launches.induct) simp_all

lemma attempts_append: "attempts (xs @ ys) = attempts xs @ attempts ys"
  by (induction xs rule: attempts.induct) simp_all

lemma emit_simps [simp]:
  "now (emit ev w) = now w"
  "trace (emit ev w) = trace w @ [ev]"
  "stdout (emit ev w) = stdout w"
  "stderr (emit ev w) = stderr w"
  by (simp_all add: emit_def)

lemma make_command_simps [simp]:
  "Path (make_command r ctx cmd rest) = cmd"
  "Args (make_command r ctx cmd rest) = cmd # rest"
  "Ctx (make_command r ctx cmd rest) = ctx"
  "Dir (make_command r ctx cmd rest) = WorkingDir (config r)"
  "Env (make_command r ctx cmd rest) =
     (if RestrictedEnv (config r) = [] then None else Some (env_pairs (RestrictedEnv (config r))))"
  by (simp_all add: make_command_def)

lemma make_command_dirs [simp]:
  "make_command (r\<lparr>config := (config r)\<lparr>AllowedDirectories := dirs\<rparr>\<rparr>) ctx cmd rest = make_command r ctx cmd rest"
  by (simp add: make_command_def)

lemma timeout_context_dirs [simp]:
  "timeout_context (r\<lparr>config := (config r)\<lparr>AllowedDirectories := dirs\<rparr>\<rparr>) ctx t = timeout_context r ctx t"
  by (simp add: timeout_context_def)

lemma make_command_cap [simp]:
  "make_command (r\<lparr>config := (config r)\<lparr>MaxOutputSize := n\<rparr>\<rparr>) ctx cmd rest = make_command r ctx cmd rest"
  by (simp add: make_command_def)

lemma timeout_context_cap [simp]:
  "timeout_context (r\<lparr>config := (config r)\<lparr>MaxOutputSize := n\<rparr>\<rparr>) ctx t = timeout_context r ctx t"
  by (simp add: timeout_context_def)


lemma WithTimeout_again:
  assumes "t0 \<le> t"
  shows "WithTimeout (WithTimeout ctx d t0) d t = WithTimeout ctx d t0"
proof (cases "Deadline ctx")
  case None
  with assms show ?thesis by (simp add: WithTimeout_def)
next
  case (Some cur)
  with assms show ?thesis by (auto simp: WithTimeout_def)
qed

lemma timeout_context_again:
  "t0 \<le> t \<Longrightarrow> timeout_context r (timeout_context r ctx t0) t = timeout_context r ctx t0"
  by (simp add: timeout_context_def WithTimeout_again)

lemma Run_Nil: "Run x r ctx [] w = (Some (New ''no command provided''), w)"
  by (simp add: Run_def)

lemma Run_denied:
  "\<not> IsCommandAllowed (config r) cmd \<Longrightarrow>
   Run x r ctx (cmd # rest) w = (Some (NotPermitted cmd), emit (LogCommandAttempt cmd rest False) w)"
  by (simp add: Run_def)

lemma Run_allowed:
  "IsCommandAllowed (config r) cmd \<Longrightarrow>
   Run x r ctx (cmd # rest) w =
     (case proc_error (Process x (make_command r (timeout_context r ctx (now w)) cmd rest) (now w)) of
        Some err \<Rightarrow>
          (Some (Errorf ''command execution error'' (Some err)),
           emit (LogErrorf ''Command execution error: %v'' err) (launched x r ctx cmd rest w))
      | None \<Rightarrow> (None, launched x r ctx cmd rest w))"
  by (simp add: Run_def command_Run_def emit_def launched_def Let_def split: option.splits)

lemma Run_refuses_iff:
  "fst (Run x r ctx (c # rest) w) = Some (NotPermitted c) \<longleftrightarrow> \<not> IsCommandAllowed (config r) c"
  by (auto simp: Run_denied Run_allowed split: option.splits)

lemma Run_effect:
  assumes "Run x r ctx args w = (e, w')"
  shows "now w \<le> now w' \<and>
         (\<exists>evs. trace w' = trace w @ evs \<and>
            launches evs =
              (case args of
                 [] \<Rightarrow> []
               | cmd # rest \<Rightarrow>
                   if IsCommandAllowed (config r) cmd
                   then [make_command r (timeout_context r ctx (now w)) cmd rest] else []))"
proof (cases args)
  case Nil
  with assms show ?thesis by (simp add: Run_Nil)
next
  case (Cons cmd rest)
  show ?thesis
  proof (cases "IsCommandAllowed (config r) cmd")
    case False
    with assms Cons show ?thesis by (auto simp: Run_denied emit_def)
  next
    case True
    with assms Cons show ?thesis
      by (auto simp: Run_allowed emit_def launched_def Let_def split: option.splits)
  qed
qed

lemma run_interp_effect:
  assumes h: "\<And>args w e w'. t0 \<le> now w \<Longrightarrow> h ctx args w = (e, w') \<Longrightarrow>
                now w \<le> now w' \<and> (\<exists>evs. trace w' = trace w @ evs \<and> list_all P (launches evs))"
  shows "t0 \<le> now w \<Longrightarrow> run_interp h ctx i w = (e, w') \<Longrightarrow>
           now w \<le> now w' \<and> (\<exists>evs. trace w' = trace w @ evs \<and> list_all P (launches evs))"
proof (induction i arbitrary: w)
  case (Exit err)
  then show ?case by simp
next
  case (Exec args k)
  obtain e1 w1 where h1: "h ctx args w = (e1, w1)" by (cases "h ctx args w")
  from h[OF Exec.prems(1) h1] obtain evs1 where
    s1: "now w \<le> now w1" "trace w1 = trace w @ evs1" "list_all P (launches evs1)" by blast
  from Exec.prems(2) h1 have r: "run_interp h ctx (k e1) w1 = (e, w')" by simp
  have "t0 \<le> now w1" using Exec.prems(1) s1(1) by simp
  from Exec.IH[OF _ this r] obtain evs2 where
    s2: "now w1 \<le> now w'" "trace w' = trace w1 @ evs2" "list_all P (launches evs2)" by blast
  have "trace w' = trace w @ (evs1 @ evs2)" using s1(2) s2(2) by simp
  moreover have "list_all P (launches (evs1 @ evs2))" using s1(3) s2(3) by (simp add: launches_append)
  moreover have "now w \<le> now w'" using s1(1) s2(1) by simp
  ultimately show ?case by blast
next
  case (Output out bytes i)
  from Output.prems(2) have
    r: "run_interp h ctx i (if out then w\<lparr>stdout := stdout w @ bytes\<rparr> else w\<lparr>stderr := stderr w @ bytes\<rparr>) = (e, w')"
    by simp
  have "t0 \<le> now (if out then w\<lparr>stdout := stdout w @ bytes\<rparr> else w\<lparr>stderr := stderr w @ bytes\<rparr>)"
    using Output.prems(1) by simp
  from Output.IH[OF this r] show ?case by (cases out) simp_all
next
  case (Elapse n i)
  from Elapse.prems(2) have r: "run_interp h ctx i (w\<lparr>now := now w + int n\<rparr>) = (e, w')" by simp
  have "t0 \<le> now (w\<lparr>now := now w + int n\<rparr>)" using Elapse.prems(1) by simp
  from Elapse.IH[OF this r] show ?case by auto
qed

lemma execHandler_effect:
  assumes run: "execHandler x r ctx args w = (e, w')"
    and P: "\<And>cmd rest. IsCommandAllowed (config r) cmd \<Longrightarrow>
              P (make_command r (timeout_context r ctx (now w)) cmd rest)"
  shows "now w \<le> now w' \<and> (\<exists>evs. trace w' = trace w @ evs \<and> list_all P (launches evs))"
proof -
  from run have "Run x r ctx args w = (e, w')" by (simp add: execHandler_def)
  from Run_effect[OF this] obtain evs where
    evs: "now w \<le> now w'" "trace w' = trace w @ evs"
      "launches evs = (case args of [] \<Rightarrow> [] | cmd # rest \<Rightarrow>
          if IsCommandAllowed (config r) cmd
          then [make_command r (timeout_context r ctx (now w)) cmd rest] else [])"
    by blast
  have "list_all P (launches evs)"
    using evs(3) P by (cases args) auto
  with evs show ?thesis by blast
qed

lemma run_interp_execHandler:
  "run_interp (execHandler x r) c i w = direct_runs x r c i w"
proof (induction i arbitrary: w)
  case (Exec args k)
  then show ?case by (simp add: execHandler_def split: prod.splits)
qed simp_all

lemma RunScript_rejected:
  "validator r script = (valid, verr) \<Longrightarrow> \<not> valid \<or> verr \<noteq> None \<Longrightarrow>
   RunScript x r ctx script w =
     (Some (Errorf ''script validation failed'' verr), emit (ScriptValidated script) w)"
  by (simp add: RunScript_def)

lemma RunScript_running:
  assumes "validator r script = (True, None)"
    and "Parse x script = Inr prog"
    and "InterpNew x (env_pairs (RestrictedEnv (config r))) = None"
    and "run_interp (execHandler x r) (timeout_context r ctx (now w))
           (InterpRun x prog (env_pairs (RestrictedEnv (config r))))
           (emit (InterpreterCreated (env_pairs (RestrictedEnv (config r)))) (emit (ScriptValidated script) w))
         = (e, w2)"
  shows "RunScript x r ctx script w =
           (case e of
              None \<Rightarrow> (None, w2)
            | Some rerr \<Rightarrow>
                (Some (Errorf ''script execution error'' (Some rerr)),
                 emit (LogErrorf ''Script execution error: %v'' rerr) w2))"
  using assms by (simp add: RunScript_def Let_def split: option.splits)

lemma RunScript_direct_runs:
  assumes "validator r script = (True, None)"
    and "Parse x script = Inr prog"
    and "InterpNew x (env_pairs (RestrictedEnv (config r))) = None"
  shows "RunScript x r ctx script w =
           script_outcome
             (direct_runs x r (timeout_context r ctx (now w))
                (InterpRun x prog (env_pairs (RestrictedEnv (config r))))
                (emit (InterpreterCreated (env_pairs (RestrictedEnv (config r))))
                   (emit (ScriptValidated script) w)))"
proof -
  obtain e w2 where
    run: "run_interp (execHandler x r) (timeout_context r ctx (now w))
           (InterpRun x prog (env_pairs (RestrictedEnv (config r))))
           (emit (InterpreterCreated (env_pairs (RestrictedEnv (config r)))) (emit (ScriptValidated script) w))
         = (e, w2)"
    by (cases "run_interp (execHandler x r) (timeout_context r ctx (now w))
           (InterpRun x prog (env_pairs (RestrictedEnv (config r))))
           (emit (InterpreterCreated (env_pairs (RestrictedEnv (config r)))) (emit (ScriptValidated script) w))")
  from RunScript_running[OF assms run] run show ?thesis
    by (simp add: run_interp_execHandler script_outcome_def split: option.splits)
qed

lemma RunScript_effect:
  assumes P: "\<And>cmd rest t. now w \<le> t \<Longrightarrow> IsCommandAllowed (config r) cmd \<Longrightarrow>
              P (make_command r (timeout_context r (timeout_context r ctx (now w)) t) cmd rest)"
  shows "\<exists>evs. trace (snd (RunScript x r ctx script w)) = trace w @ ScriptValidated script # evs
           \<and> list_all P (launches evs)"
proof -
  obtain valid verr where v: "validator r script = (valid, verr)" by (cases "validator r script")
  show ?thesis
  proof (cases "\<not> valid \<or> verr \<noteq> None")
    case True
    show ?thesis by (simp add: RunScript_rejected[OF v True])
  next
    case ok: False
    with v have v': "validator r script = (True, None)" by simp
    show ?thesis
    proof (cases "Parse x script")
      case (Inl perr)
      with v' show ?thesis by (simp add: RunScript_def)
    next
      case (Inr prog)
      show ?thesis
      proof (cases "InterpNew x (env_pairs (RestrictedEnv (config r)))")
        case (Some ierr)
        with v' Inr show ?thesis by (simp add: RunScript_def)
      next
        case None
        define ctx1 where "ctx1 = timeout_context r ctx (now w)"
        define w1 where "w1 = emit (InterpreterCreated (env_pairs (RestrictedEnv (config r)))) (emit (ScriptValidated script) w)"
        obtain e w2 where
          run: "run_interp (execHandler x r) ctx1 (InterpRun x prog (env_pairs (RestrictedEnv (config r)))) w1 = (e, w2)"
          by (cases "run_interp (execHandler x r) ctx1 (InterpRun x prog (env_pairs (RestrictedEnv (config r)))) w1")
        have now1: "now w \<le> now w1" by (simp add: w1_def)
        have "now w1 \<le> now w2 \<and> (\<exists>evs. trace w2 = trace w1 @ evs \<and> list_all P (launches evs))"
        proof (rule run_interp_effect[where h = "execHandler x r" and ?t0.0 = "now w1" and P = P,
                                      OF _ order_refl run])
          fix args wa ea wb
          assume le: "now w1 \<le> now wa" and ex: "execHandler x r ctx1 args wa = (ea, wb)"
          show "now wa \<le> now wb \<and> (\<exists>evs. trace wb = trace wa @ evs \<and> list_all P (launches evs))"
          proof (rule execHandler_effect[OF ex])
            fix cmd rest
            assume "IsCommandAllowed (config r) cmd"
            then show "P (make_command r (timeout_context r ctx1 (now wa)) cmd rest)"
              unfolding ctx1_def using P[of "now wa" cmd rest] le now1 by simp
          qed
        qed
        then obtain evs where evs: "trace w2 = trace w1 @ evs" "list_all P (launches evs)"
          by blast
        have tr: "trace w2 = trace w @ ScriptValidated script # InterpreterCreated (env_pairs (RestrictedEnv (config r))) # evs"
          using evs(1) by (simp add: w1_def)
        have res: "trace (snd (RunScript x r ctx script w)) =
                 trace w2 @ (case e of None \<Rightarrow> [] | Some rerr \<Rightarrow> [LogErrorf ''Script execution error: %v'' rerr])"
          using RunScript_running[OF v' Inr None run[unfolded ctx1_def w1_def]]
          by (simp split: option.splits)
        show ?thesis
          using res tr evs(2) by (cases e) (auto simp: launches_append)
      qed
    qed
  qed
qed

lemmas example_defs =
  example_externals_def runner_config_def fresh_world_def accept_all_def default_runner_def
  NewDefaultConfig_def allow_entry_def DefaultExecutionTimeout_def DefaultMaxOutputSize_def
  Background_def

lemmas fixture_defs = script_externals_def reject_all_def rejecting_runner_def env_runner_def
  env_etc_runner_def etc_runner_def small_cap_runner_def no_timeout_runner_def allow_and_deny_rm_def

lemmas run_defs =
  Run_def RunScript_def execHandler_def IsCommandAllowed_def slice_list_def emit_def
  timeout_context_def WithTimeout_def Seconds_def wrap64_def make_command_def command_Run_def
  env_pairs_def



section \<open>The claims\<close>

subsection \<open>C1: deny precedence on the direct path\<close>

text \<open>
  Claim C1 asks that a command listed in \<open>DenyCommands\<close> is refused by \<open>Run\<close> even when
  it is also listed in \<open>AllowCommands\<close>. \<open>IsCommandAllowed\<close> reads \<open>AllowCommands\<close>
  only, so \<open>Run\<close> starts such a command. Evaluated on the default policy, which denies
  \<open>rm\<close>, after \<open>rm\<close> has been added to the allowed commands: the attempt is logged as
  allowed and \<open>rm -rf /\<close> is run.
\<close>

theorem Run_launches_denied_command:
  "map deny_Command (slice_list (DenyCommands (config allow_and_deny_rm))) = [''rm''] \<and>
   map Command (slice_list (AllowCommands (config allow_and_deny_rm))) = [''ls'', ''cat'', ''echo'', ''rm''] \<and>
   IsCommandAllowed (config allow_and_deny_rm) ''rm'' \<and>
   Run example_externals allow_and_deny_rm Background [''rm'', ''-rf'', ''/''] fresh_world =
     (None,
      \<lparr>now = 5,
       trace = [LogCommandAttempt ''rm'' [''-rf'', ''/''] True,
                CommandRun \<lparr>Path = ''rm'', Args = [''rm'', ''-rf'', ''/''], Env = None, Dir = [],
                            Ctx = \<lparr>Deadline = Some 30000000000\<rparr>\<rparr>],
       stdout = ''abc'', stderr = ''!''\<rparr>)"
  by (simp add: fixture_defs example_defs run_defs AddAllowedCommand_def Let_def)

subsection \<open>C2: the environment of a started process\<close>




subsection \<open>C3: the working directory\<close>

text \<open>
  Claim C3 as stated fails: with the default policy (allowed directories \<open>/home\<close> and
  \<open>/tmp\<close>) and the working directory \<open>/etc\<close>, \<open>Run\<close> of \<open>ls\<close> succeeds and the
  process is started in \<open>/etc\<close>.
\<close>

theorem working_dir_counterexample:
  "WorkingDir (config etc_runner) = ''/etc'' \<and>
   AllowedDirectories (config etc_runner) = Some [''/home'', ''/tmp''] \<and>
   \<not> under_allowed [''/home'', ''/tmp''] ''/etc'' \<and>
   fst (Run example_externals etc_runner Background [''ls''] fresh_world) = None \<and>
   map Dir (launches (trace (snd (Run example_externals etc_runner Background [''ls''] fresh_world))))
     = [''/etc'']"
  by (simp add: fixture_defs example_defs run_defs Let_def under_allowed_def)

text \<open>
  Claim C3, amended. \<open>Run\<close> does not look at \<open>AllowedDirectories\<close>: whatever that field
  holds, the call does the same. It is refused exactly when the command is not allowed,
  and an allowed command is started, once, with \<open>Dir\<close> the configured working
  directory.
\<close>

theorem working_dir_unchecked:
  "Run x (r\<lparr>config := (config r)\<lparr>AllowedDirectories := dirs\<rparr>\<rparr>) ctx args w = Run x r ctx args w \<and>
   (fst (Run x r ctx (cmd # rest) w) = Some (NotPermitted cmd) \<longleftrightarrow> \<not> IsCommandAllowed (config r) cmd) \<and>
   (\<exists>evs. trace (snd (Run x r ctx (cmd # rest) w)) = trace w @ evs \<and>
      launches evs =
        (if IsCommandAllowed (config r) cmd
         then [make_command r (timeout_context r ctx (now w)) cmd rest] else [])) \<and>
   Dir (make_command r (timeout_context r ctx (now w)) cmd rest) = WorkingDir (config r)"
proof (intro conjI)
  show "Run x (r\<lparr>config := (config r)\<lparr>AllowedDirectories := dirs\<rparr>\<rparr>) ctx args w = Run x r ctx args w"
    by (cases args) (simp_all add: Run_def)
next
  show "fst (Run x r ctx (cmd # rest) w) = Some (NotPermitted cmd) \<longleftrightarrow> \<not> IsCommandAllowed (config r) cmd"
    by (rule Run_refuses_iff)
next
  obtain e w' where run: "Run x r ctx (cmd # rest) w = (e, w')" by (cases "Run x r ctx (cmd # rest) w")
  from Run_effect[OF run] run
  show "\<exists>evs. trace (snd (Run x r ctx (cmd # rest) w)) = trace w @ evs \<and>
      launches evs =
        (if IsCommandAllowed (config r) cmd
         then [make_command r (timeout_context r ctx (now w)) cmd rest] else [])"
    by auto
next
  show "Dir (make_command r (timeout_context r ctx (now w)) cmd rest) = WorkingDir (config r)"
    by simp
qed

theorem working_dir_unchecked_witness:
  "IsCommandAllowed (config etc_runner) ''ls'' \<and>
   Run example_externals (etc_runner\<lparr>config := (config etc_runner)\<lparr>AllowedDirectories := Some []\<rparr>\<rparr>)
       Background [''ls''] fresh_world
     = Run example_externals etc_runner Background [''ls''] fresh_world \<and>
   Dir (make_command etc_runner (timeout_context etc_runner Background (now fresh_world)) ''ls'' []) = ''/etc''"
  using working_dir_unchecked [where x = example_externals and r = etc_runner and dirs = "Some []"
      and ctx = Background and args = "[''ls'']" and w = fresh_world and cmd = "''ls''" and rest = "[]"]
  by (simp add: fixture_defs example_defs run_defs Let_def)

subsection \<open>C4: the size of the output\<close>

text \<open>
  Claim C4 as stated fails: with \<open>MaxOutputSize = 2\<close> a process that prints three bytes
  gets all three to the runner's \<open>stdout\<close>, and the call succeeds.
\<close>

theorem output_cap_counterexample:
  "MaxOutputSize (config small_cap_runner) = 2 \<and>
   fst (Run example_externals small_cap_runner Background [''ls''] fresh_world) = None \<and>
   stdout (snd (Run example_externals small_cap_runner Background [''ls''] fresh_world)) = ''abc'' \<and>
   length (stdout (snd (Run example_externals small_cap_runner Background [''ls''] fresh_world))) = 3"
  by (simp add: fixture_defs example_defs run_defs Let_def)

text \<open>
  Claim C4, amended. \<open>Run\<close> hands the runner's two writers (\<open>os.Stdout\<close> and
  \<open>os.Stderr\<close> after \<open>New\<close>, or those given to \<open>SetOutputs\<close>) to the process as
  they are and does not read \<open>MaxOutputSize\<close>: whatever that field holds, the call
  does the same, and every byte an allowed command writes to its standard output or
  standard error arrives at the writer, in order, after what was written before.
\<close>

theorem output_unbounded:
  "Run x (r\<lparr>config := (config r)\<lparr>MaxOutputSize := n\<rparr>\<rparr>) ctx args w = Run x r ctx args w \<and>
   (IsCommandAllowed (config r) cmd \<longrightarrow>
      stdout (snd (Run x r ctx (cmd # rest) w)) =
        stdout w @ proc_stdout (Process x (make_command r (timeout_context r ctx (now w)) cmd rest) (now w)) \<and>
      stderr (snd (Run x r ctx (cmd # rest) w)) =
        stderr w @ proc_stderr (Process x (make_command r (timeout_context r ctx (now w)) cmd rest) (now w)))"
proof
  show "Run x (r\<lparr>config := (config r)\<lparr>MaxOutputSize := n\<rparr>\<rparr>) ctx args w = Run x r ctx args w"
    by (cases args) (simp_all add: Run_def)
next
  show "IsCommandAllowed (config r) cmd \<longrightarrow>
      stdout (snd (Run x r ctx (cmd # rest) w)) =
        stdout w @ proc_stdout (Process x (make_command r (timeout_context r ctx (now w)) cmd rest) (now w)) \<and>
      stderr (snd (Run x r ctx (cmd # rest) w)) =
        stderr w @ proc_stderr (Process x (make_command r (timeout_context r ctx (now w)) cmd rest) (now w))"
    by (simp add: Run_allowed launched_def Let_def split: option.splits)
qed

theorem output_unbounded_witness:
  "IsCommandAllowed (config small_cap_runner) ''ls'' \<and>
   stdout (snd (Run example_externals small_cap_runner Background [''ls''] fresh_world)) = ''abc'' \<and>
   stderr (snd (Run example_externals small_cap_runner Background [''ls''] fresh_world)) = ''!''"
  using output_unbounded [where x = example_externals and r = small_cap_runner and n = 2
      and ctx = Background and args = "[''ls'']" and w = fresh_world and cmd = "''ls''" and rest = "[]"]
  by (simp add: fixture_defs example_defs run_defs Let_def)

subsection \<open>C5: validation comes first\<close>

text \<open>
  Claim C5. When \<open>ValidateScript\<close> returns a denial or an error, \<open>RunScript\<close> returns
  the failure "script validation failed" and nothing else has happened: no interpreter
  was created, no command was run, nothing was logged. In every call the first thing
  that happens is the validation, so whatever is run comes after it.
\<close>

theorem RunScript_validates_first:
  "(\<not> fst (validator r script) \<or> snd (validator r script) \<noteq> None \<longrightarrow>
      RunScript x r ctx script w =
        (Some (Errorf ''script validation failed'' (snd (validator r script))),
         w\<lparr>trace := trace w @ [ScriptValidated script]\<rparr>))
   \<and> (\<exists>evs. trace (snd (RunScript x r ctx script w)) = trace w @ ScriptValidated script # evs)"
proof
  show "\<not> fst (validator r script) \<or> snd (validator r script) \<noteq> None \<longrightarrow>
      RunScript x r ctx script w =
        (Some (Errorf ''script validation failed'' (snd (validator r script))),
         w\<lparr>trace := trace w @ [ScriptValidated script]\<rparr>)"
    using RunScript_rejected[of r script "fst (validator r script)" "snd (validator r script)"]
    by (auto simp: emit_def)
next
  have "\<exists>evs. trace (snd (RunScript x r ctx script w)) = trace w @ ScriptValidated script # evs
           \<and> list_all (\<lambda>command. True) (launches evs)"
    by (rule RunScript_effect) simp
  then show "\<exists>evs. trace (snd (RunScript x r ctx script w)) = trace w @ ScriptValidated script # evs"
    by blast
qed

theorem RunScript_validates_first_witness:
  "\<not> fst (validator rejecting_runner ''rm -rf /'') \<and>
   RunScript script_externals rejecting_runner Background ''rm -rf /'' fresh_world =
     (Some (Errorf ''script validation failed'' (Some (New ''command not allowed''))),
      fresh_world\<lparr>trace := [ScriptValidated ''rm -rf /'']\<rparr>)"
  using RunScript_validates_first [of rejecting_runner "''rm -rf /''" script_externals Background fresh_world]
  by (simp add: fixture_defs example_defs)

subsection \<open>C6: the exec handler is Run\<close>

text \<open>
  Claim C6. The exec handler that \<open>RunScript\<close> gives the interpreter is \<open>Run\<close> itself:
  the run of a program against the handler is the run in which every step that
  executes a program is the call of \<open>Run\<close> on the argument vector of that step, and a
  script that passes validation, parses and gets an interpreter has the outcome of
  that run, under the context derived at the start of the script. So every process
  started during a script, whatever the interpreter does, is one whose command
  \<open>IsCommandAllowed\<close> accepts, started from the \<open>exec.Cmd\<close> that \<open>Run\<close> builds for
  its argument vector, and a command that \<open>Run\<close> refuses is never started by a
  script. (What the interpreter does without the handler, a builtin for instance,
  starts no process.)
\<close>

theorem exec_hook_is_Run:
  "run_interp (execHandler x r) c i w0 = direct_runs x r c i w0 \<and>
   (validator r script = (True, None) \<and> Parse x script = Inr prog
      \<and> InterpNew x (env_pairs (RestrictedEnv (config r))) = None \<longrightarrow>
    RunScript x r ctx script w =
      script_outcome
        (direct_runs x r (timeout_context r ctx (now w))
           (InterpRun x prog (env_pairs (RestrictedEnv (config r))))
           (emit (InterpreterCreated (env_pairs (RestrictedEnv (config r))))
              (emit (ScriptValidated script) w)))) \<and>
   (\<exists>evs. trace (snd (RunScript x r ctx script w)) = trace w @ evs \<and>
      list_all (\<lambda>command. IsCommandAllowed (config r) (Path command) \<and>
                  command = make_command r (timeout_context r ctx (now w)) (Path command) (tl (Args command)))
        (launches evs) \<and>
      (fst (Run x r ctx0 (cmd # rest) w1) = Some (NotPermitted cmd) \<longrightarrow>
         list_all (\<lambda>command. Path command \<noteq> cmd) (launches evs)))"
proof (intro conjI)
  show "run_interp (execHandler x r) c i w0 = direct_runs x r c i w0"
    by (rule run_interp_execHandler)
next
  show "validator r script = (True, None) \<and> Parse x script = Inr prog
      \<and> InterpNew x (env_pairs (RestrictedEnv (config r))) = None \<longrightarrow>
    RunScript x r ctx script w =
      script_outcome
        (direct_runs x r (timeout_context r ctx (now w))
           (InterpRun x prog (env_pairs (RestrictedEnv (config r))))
           (emit (InterpreterCreated (env_pairs (RestrictedEnv (config r))))
              (emit (ScriptValidated script) w)))"
    by (simp add: RunScript_direct_runs)
next
  have "\<exists>evs. trace (snd (RunScript x r ctx script w)) = trace w @ ScriptValidated script # evs
           \<and> list_all (\<lambda>command. IsCommandAllowed (config r) (Path command) \<and>
                  command = make_command r (timeout_context r ctx (now w)) (Path command) (tl (Args command)))
               (launches evs)"
    by (rule RunScript_effect) (simp add: timeout_context_again)
  then obtain evs where
    evs: "trace (snd (RunScript x r ctx script w)) = trace w @ ScriptValidated script # evs"
      "list_all (\<lambda>command. IsCommandAllowed (config r) (Path command) \<and>
                  command = make_command r (timeout_context r ctx (now w)) (Path command) (tl (Args command)))
         (launches evs)"
    by blast
  have all: "list_all (\<lambda>command. IsCommandAllowed (config r) (Path command) \<and>
                  command = make_command r (timeout_context r ctx (now w)) (Path command) (tl (Args command)))
               (launches (ScriptValidated script # evs))"
    using evs(2) by simp
  have "fst (Run x r ctx0 (cmd # rest) w1) = Some (NotPermitted cmd) \<longrightarrow>
          list_all (\<lambda>command. Path command \<noteq> cmd) (launches (ScriptValidated script # evs))"
    using all by (auto simp: Run_refuses_iff list_all_iff)
  with evs(1) all
  show "\<exists>evs. trace (snd (RunScript x r ctx script w)) = trace w @ evs \<and>
      list_all (\<lambda>command. IsCommandAllowed (config r) (Path command) \<and>
                  command = make_command r (timeout_context r ctx (now w)) (Path command) (tl (Args command)))
        (launches evs) \<and>
      (fst (Run x r ctx0 (cmd # rest) w1) = Some (NotPermitted cmd) \<longrightarrow>
         list_all (\<lambda>command. Path command \<noteq> cmd) (launches evs))"
    by blast
qed

theorem exec_hook_is_Run_witness:
  "validator default_runner ''ls; rm -rf /; cat f'' = (True, None) \<and>
   Parse script_externals ''ls; rm -rf /; cat f'' = Inr () \<and>
   InterpNew script_externals (env_pairs (RestrictedEnv (config default_runner))) = None \<and>
   fst (Run script_externals default_runner Background [''rm'', ''-rf'', ''/''] fresh_world)
     = Some (NotPermitted ''rm'') \<and>
   RunScript script_externals default_runner Background ''ls; rm -rf /; cat f'' fresh_world =
     (Some (Errorf ''script execution error'' (Some (NotPermitted ''rm''))),
      \<lparr>now = 5,
       trace = [ScriptValidated ''ls; rm -rf /; cat f'', InterpreterCreated [],
                LogCommandAttempt ''ls'' [] True,
                CommandRun \<lparr>Path = ''ls'', Args = [''ls''], Env = None, Dir = [],
                            Ctx = \<lparr>Deadline = Some 30000000000\<rparr>\<rparr>,
                LogCommandAttempt ''rm'' [''-rf'', ''/''] False,
                LogErrorf ''Script execution error: %v'' (NotPermitted ''rm'')],
       stdout = ''abc'', stderr = ''!''\<rparr>) \<and>
   direct_runs script_externals default_runner \<lparr>Deadline = Some 30000000000\<rparr>
       (InterpRun script_externals () [])
       \<lparr>now = 0, trace = [ScriptValidated ''ls; rm -rf /; cat f'', InterpreterCreated []],
        stdout = [], stderr = []\<rparr> =
     (Some (NotPermitted ''rm''),
      \<lparr>now = 5,
       trace = [ScriptValidated ''ls; rm -rf /; cat f'', InterpreterCreated [],
                LogCommandAttempt ''ls'' [] True,
                CommandRun \<lparr>Path = ''ls'', Args = [''ls''], Env = None, Dir = [],
                            Ctx = \<lparr>Deadline = Some 30000000000\<rparr>\<rparr>,
                LogCommandAttempt ''rm'' [''-rf'', ''/''] False],
       stdout = ''abc'', stderr = ''!''\<rparr>)"
  using exec_hook_is_Run [where x = script_externals and r = default_runner and ctx = Background
      and script = "''ls; rm -rf /; cat f''" and w = fresh_world and prog = "()"
      and c = "\<lparr>Deadline = Some 30000000000\<rparr>" and i = "InterpRun script_externals () []"
      and ?w0.0 = "\<lparr>now = 0, trace = [ScriptValidated ''ls; rm -rf /; cat f'', InterpreterCreated []],
        stdout = [], stderr = []\<rparr>"
      and ctx0 = Background and cmd = "''rm''" and rest = "[''-rf'', ''/'']" and ?w1.0 = fresh_world]
  by (simp add: fixture_defs example_defs run_defs script_outcome_def Let_def)

subsection \<open>C7: the deadline of a script\<close>




subsection \<open>C8: decoding a policy and serialising it again\<close>




subsection \<open>C9: the attempt log of Run\<close>

text \<open>
  Claim C9. For the empty command vector \<open>Run\<close> returns an error and leaves the state
  as it was, whatever the policy is: nothing is logged and no process is asked for. For
  every non-empty vector exactly one attempt is logged, with the verdict of
  \<open>IsCommandAllowed\<close>; on a denial that is all that happens, otherwise the call of
  \<open>command.Run()\<close> comes right after it.
\<close>

theorem Run_logs_one_attempt:
  "Run x r ctx [] w = (Some (New ''no command provided''), w) \<and>
   (\<exists>e w'. Run x r ctx (cmd # rest) w = (e, w') \<and>
      attempts (trace w') =
        attempts (trace w) @ [LogCommandAttempt cmd rest (IsCommandAllowed (config r) cmd)] \<and>
      (if IsCommandAllowed (config r) cmd
       then \<exists>errs. trace w' =
              trace w @ LogCommandAttempt cmd rest True
                # CommandRun (make_command r (timeout_context r ctx (now w)) cmd rest) # errs
              \<and> launches errs = []
       else e = Some (NotPermitted cmd) \<and> trace w' = trace w @ [LogCommandAttempt cmd rest False]))"
proof (cases "IsCommandAllowed (config r) cmd")
  case False
  then show ?thesis
    by (simp add: Run_Nil Run_denied emit_def attempts_append)
next
  case True
  then show ?thesis
    by (cases "proc_error (Process x (make_command r (timeout_context r ctx (now w)) cmd rest) (now w))")
       (simp_all add: Run_Nil Run_allowed emit_def launched_def Let_def attempts_append)
qed

theorem Run_logs_one_attempt_witness:
  "Run example_externals default_runner Background [] fresh_world =
     (Some (New ''no command provided''), fresh_world) \<and>
   trace (snd (Run example_externals default_runner Background [''rm'', ''-rf''] fresh_world)) =
     [LogCommandAttempt ''rm'' [''-rf''] False] \<and>
   trace (snd (Run example_externals default_runner Background [''ls'', ''-l''] fresh_world)) =
     [LogCommandAttempt ''ls'' [''-l''] True,
      CommandRun \<lparr>Path = ''ls'', Args = [''ls'', ''-l''], Env = None, Dir = [],
                  Ctx = \<lparr>Deadline = Some 30000000000\<rparr>\<rparr>]"
  using Run_logs_one_attempt [of example_externals default_runner Background fresh_world "''rm''" "[''-rf'']"]
    Run_logs_one_attempt [of example_externals default_runner Background fresh_world "''ls''" "[''-l'']"]
  by (simp add: example_defs run_defs Let_def)

subsection \<open>C10: a document without a rule list\<close>

text \<open>
  Claim C10. An object in which no key selects the field \<open>allowCommands\<close>, or none
  selects \<open>denyCommands\<close>, does not decode: \<open>UnmarshalJSON\<close> returns an error, and so
  does \<open>LoadConfigFromFile\<close> on a file that holds such a document.
\<close>

theorem missing_rule_list_is_an_error:
  assumes "\<not> has_field ''allowCommands'' ms \<or> \<not> has_field ''denyCommands'' ms"
  shows "(\<exists>err. UnmarshalJSON (JObject ms) = Inl err) \<and>
         (readFile filePath = Inr fileBytes \<and> parse fileBytes = Inr (JObject ms) \<longrightarrow>
            (\<exists>err. LoadConfigFromFile readFile parse filePath
                     = Inl (Errorf ''failed to decode config file'' (Some err))))"
proof -
  have "\<exists>err. UnmarshalJSON (JObject ms) = Inl err"
  proof (cases "UnmarshalJSON (JObject ms)")
    case (Inl err)
    then show ?thesis by simp
  next
    case (Inr c)
    from UnmarshalJSON_needs_lists[OF this] assms show ?thesis by simp
  qed
  then show ?thesis by (auto simp: LoadConfigFromFile_def)
qed

theorem missing_rule_list_is_an_error_witness:
  "\<not> has_field ''allowCommands'' no_allow_policy \<and>
   UnmarshalJSON (JObject no_allow_policy) =
     Inl (Errorf ''error unmarshaling allow commands'' (Some (SyntaxError ''unexpected end of JSON input''))) \<and>
   LoadConfigFromFile (\<lambda>path. Inr ''{...}'') (\<lambda>bytes. Inr (JObject no_allow_policy)) ''config.json'' =
     Inl (Errorf ''failed to decode config file''
           (Some (Errorf ''error unmarshaling allow commands''
                   (Some (SyntaxError ''unexpected end of JSON input'')))))"
  using missing_rule_list_is_an_error [of no_allow_policy "\<lambda>path. Inr ''{...}''" "''config.json''"
      "''{...}''" "\<lambda>bytes. Inr (JObject no_allow_policy)"]
  by (simp add: no_allow_policy_def has_field_def name_matches_def json_defs LoadConfigFromFile_def)

end
